theory Spec2Isabelle
  imports Complex_Main "HOL-Library.List_Lexorder" "HOL-Library.Product_Lexorder"
begin

section \<open>Python strings\<close>

text \<open>
  A Python \<open>str\<close> is a sequence of Unicode code points, and \<open>len\<close> counts code points.
  A string is therefore a list of code points (natural numbers); \<open>py ''abc''\<close> is the
  string of an ASCII literal.
\<close>

type_synonym pystr = "nat list"

definition py :: "string \<Rightarrow> pystr" where
  "py s = map of_char s"

text \<open>
  \<open>str.isspace\<close>, which is also what \<open>\s\<close> matches in a \<open>str\<close> pattern of \<open>re\<close> and what
  \<open>str.strip()\<close> and \<open>str.split()\<close> remove: the 29 white-space code points of CPython.
\<close>

definition isspace :: "nat \<Rightarrow> bool" where
  "isspace c \<longleftrightarrow>
     (9 \<le> c \<and> c \<le> 13) \<or> (28 \<le> c \<and> c \<le> 32) \<or> c = 133 \<or> c = 160 \<or> c = 5760 \<or>
     (8192 \<le> c \<and> c \<le> 8202) \<or> c = 8232 \<or> c = 8233 \<or> c = 8239 \<or> c = 8287 \<or>
     c = 12288"

text \<open>\<open>s.strip()\<close> and \<open>s.strip(chars)\<close>.\<close>

definition py_strip :: "pystr \<Rightarrow> pystr" where
  "py_strip s = rev (dropWhile isspace (rev (dropWhile isspace s)))"

definition py_strip_chars :: "pystr \<Rightarrow> pystr \<Rightarrow> pystr" where
  "py_strip_chars chars s =
     rev (dropWhile (\<lambda>c. c \<in> set chars) (rev (dropWhile (\<lambda>c. c \<in> set chars) s)))"

text \<open>
  \<open>s.replace(old, new)\<close>: the occurrences of \<open>old\<close> are found left to right and do not
  overlap; an empty \<open>old\<close> matches before every character and at the end.
\<close>

fun py_replace :: "pystr \<Rightarrow> pystr \<Rightarrow> pystr \<Rightarrow> pystr" where
  "py_replace old new [] = (if old = [] then new else [])"
| "py_replace old new (c # cs) =
     (if old = [] then new @ c # py_replace old new cs
      else if take (length old) (c # cs) = old
        then new @ py_replace old new (drop (length old - 1) cs)
      else c # py_replace old new cs)"

text \<open>
  \<open>s.split(sep)\<close> for a non-empty separator (the source only passes the literals
  \<open>'\n'\<close> and \<open>'\n\n'\<close>): the pieces between the occurrences of \<open>sep\<close>, empty pieces kept.
  The result is never the empty list, so the second branch of the \<open>case\<close> is not reached.
\<close>

fun py_split :: "pystr \<Rightarrow> pystr \<Rightarrow> pystr list" where
  "py_split sep [] = [[]]"
| "py_split sep (c # cs) =
     (if take (length sep) (c # cs) = sep
        then [] # py_split sep (drop (length sep - 1) cs)
      else (case py_split sep cs of
              r # rs \<Rightarrow> (c # r) # rs
            | [] \<Rightarrow> [[c]]))"

text \<open>
  \<open>re.split(r'[...]+', s)\<close> for a character class \<open>P\<close>: the pieces between the maximal
  runs of characters of the class, empty pieces kept (also at both ends).
\<close>

function (sequential) re_split_runs :: "(nat \<Rightarrow> bool) \<Rightarrow> pystr \<Rightarrow> pystr list" where
  "re_split_runs P [] = [[]]"
| "re_split_runs P (c # cs) =
     (if P c then [] # re_split_runs P (dropWhile P cs)
      else (case re_split_runs P cs of
              r # rs \<Rightarrow> (c # r) # rs
            | [] \<Rightarrow> [[c]]))"
  by pat_completeness auto
termination
  by (relation "measure (\<lambda>(P, s). length s)")
     (auto simp: le_imp_less_Suc length_dropWhile_le)

text \<open>
  \<open>re.findall(r'[...]+', s)\<close> for a character class \<open>P\<close>: the maximal runs of characters
  of the class, left to right.
\<close>

function (sequential) re_findall_runs :: "(nat \<Rightarrow> bool) \<Rightarrow> pystr \<Rightarrow> pystr list" where
  "re_findall_runs P [] = []"
| "re_findall_runs P (c # cs) =
     (if P c then (c # takeWhile P cs) # re_findall_runs P (dropWhile P cs)
      else re_findall_runs P cs)"
  by pat_completeness auto
termination
  by (relation "measure (\<lambda>(P, s). length s)")
     (auto simp: le_imp_less_Suc length_dropWhile_le)

text \<open>\<open>re.sub(r'[...]+', repl, s)\<close>: every maximal run of the class becomes \<open>repl\<close>.\<close>

function (sequential) re_sub_runs :: "(nat \<Rightarrow> bool) \<Rightarrow> pystr \<Rightarrow> pystr \<Rightarrow> pystr" where
  "re_sub_runs P repl [] = []"
| "re_sub_runs P repl (c # cs) =
     (if P c then repl @ re_sub_runs P repl (dropWhile P cs)
      else c # re_sub_runs P repl cs)"
  by pat_completeness auto
termination
  by (relation "measure (\<lambda>(P, repl, s). length s)")
     (auto simp: le_imp_less_Suc length_dropWhile_le)

text \<open>\<open>s.split()\<close>: the non-empty pieces between runs of white space.\<close>

definition py_split_ws :: "pystr \<Rightarrow> pystr list" where
  "py_split_ws s = filter (\<lambda>w. w \<noteq> []) (re_split_runs isspace s)"

text \<open>\<open>sep.join(xs)\<close>.\<close>

fun py_join :: "pystr \<Rightarrow> pystr list \<Rightarrow> pystr" where
  "py_join sep [] = []"
| "py_join sep [x] = x"
| "py_join sep (x # y # ys) = x @ sep @ py_join sep (y # ys)"

text \<open>\<open>xs[:k]\<close> for an integer \<open>k\<close>: a negative \<open>k\<close> counts from the end.\<close>

definition py_slice_to :: "int \<Rightarrow> 'a list \<Rightarrow> 'a list" where
  "py_slice_to k xs =
     (if 0 \<le> k then take (nat k) xs else take (length xs - nat (- k)) xs)"

text \<open>\<open>str(n)\<close> for an integer.\<close>

function str_nat :: "nat \<Rightarrow> pystr" where
  "str_nat n = (if n < 10 then [48 + n] else str_nat (n div 10) @ [48 + n mod 10])"
  by pat_completeness auto
termination
  by (relation "measure id") auto

declare str_nat.simps [simp del]

definition str_int :: "int \<Rightarrow> pystr" where
  "str_int i = (if i < 0 then 45 # str_nat (nat (- i)) else str_nat (nat i))"

text \<open>
  \<open>int(s)\<close> on a string, \<open>None\<close> where CPython raises \<open>ValueError\<close>: white space around
  the literal is dropped (the white space of \<open>str.isspace\<close> except the separators
  U+001C to U+001F), then comes an optional sign and decimal digits, with single
  underscores allowed between digits, and at most 4300 digits (CPython's default limit
  on the conversion). Only the ASCII digits are modelled; CPython accepts the other
  Unicode decimal digits too.
\<close>

definition isdigit :: "nat \<Rightarrow> bool" where
  "isdigit c \<longleftrightarrow> 48 \<le> c \<and> c \<le> 57"

definition int_space :: "nat \<Rightarrow> bool" where
  "int_space c \<longleftrightarrow> isspace c \<and> (c < 28 \<or> 31 < c)"

fun int_literal_ok :: "pystr \<Rightarrow> bool" where
  "int_literal_ok [] = False"
| "int_literal_ok [c] = isdigit c"
| "int_literal_ok (c # d # r) =
     (isdigit c \<and> (if d = 95 then int_literal_ok r else int_literal_ok (d # r)))"

definition digits_val :: "pystr \<Rightarrow> nat" where
  "digits_val ds = foldl (\<lambda>a c. 10 * a + (c - 48)) 0 (filter isdigit ds)"

definition py_int :: "pystr \<Rightarrow> int option" where
  "py_int s =
     (let t = rev (dropWhile int_space (rev (dropWhile int_space s)));
          signed = (t \<noteq> [] \<and> (hd t = 45 \<or> hd t = 43));
          body = (if signed then tl t else t)
      in if int_literal_ok body \<and> length (filter isdigit body) \<le> 4300
         then Some (if signed \<and> hd t = 45 then - int (digits_val body)
                    else int (digits_val body))
         else None)"

text \<open>
  The message of the \<open>ValueError\<close> of \<open>int(s)\<close>. CPython prints \<open>repr(s)\<close>; it is written
  here as \<open>s\<close> between single quotes, which is \<open>repr(s)\<close> for a string that holds no quote,
  backslash or non-printable character.
\<close>

definition invalid_literal :: "pystr \<Rightarrow> pystr" where
  "invalid_literal s = py ''invalid literal for int() with base 10: '' @ [39] @ s @ [39]"

section \<open>Exceptions, the process state and its effects\<close>

text \<open>
  A raised exception: \<open>KeyboardInterrupt\<close> and \<open>SystemExit\<close> derive from \<open>BaseException\<close>
  only; \<open>Exception cls msg\<close> is an instance of a subclass of \<open>Exception\<close> whose \<open>str()\<close>
  is \<open>msg\<close>.
\<close>

datatype exc_class = ValueError | OtherError

datatype py_exn = KeyboardInterrupt | SystemExit | Exception exc_class pystr

text \<open>
  The part of the process the code touches: the environment (\<open>os.environ\<close>), the names
  looked up in it so far, and the lines printed to standard output.
\<close>

record process =
  environ :: "pystr \<Rightarrow> pystr option"
  env_reads :: "pystr list"
  stdout :: "pystr list"

type_synonym 'a io = "process \<Rightarrow> (py_exn + 'a) \<times> process"

definition io_return :: "'a \<Rightarrow> 'a io" where
  "io_return x st = (Inr x, st)"

definition io_raise :: "py_exn \<Rightarrow> 'a io" where
  "io_raise e st = (Inl e, st)"

definition io_bind :: "'a io \<Rightarrow> ('a \<Rightarrow> 'b io) \<Rightarrow> 'b io" where
  "io_bind m k st = (case m st of (Inl e, st') \<Rightarrow> (Inl e, st') | (Inr x, st') \<Rightarrow> k x st')"

text \<open>\<open>os.getenv(key, default)\<close>: a read of the environment by name.\<close>

definition os_getenv :: "pystr \<Rightarrow> pystr \<Rightarrow> pystr io" where
  "os_getenv key dflt st =
     (Inr (case environ st key of None \<Rightarrow> dflt | Some v \<Rightarrow> v),
      st\<lparr>env_reads := env_reads st @ [key]\<rparr>)"

text \<open>\<open>print(s)\<close>: one more line on standard output.\<close>

definition print_line :: "pystr \<Rightarrow> unit io" where
  "print_line s st = (Inr (), st\<lparr>stdout := stdout st @ [s]\<rparr>)"

section \<open>plugins/text\_processor/utils.py\<close>

text \<open>
  The tables of the Unicode database that CPython consults for \<open>\w\<close> (\<open>str.isalnum\<close>) and
  for \<open>str.lower\<close> are not reproduced: the functions that need them take them as a
  parameter.
\<close>

record unicode_db =
  isalnum :: "nat \<Rightarrow> bool"
  lower :: "pystr \<Rightarrow> pystr"

definition isword :: "unicode_db \<Rightarrow> nat \<Rightarrow> bool" where
  "isword db c \<longleftrightarrow> isalnum db c \<or> c = 95"

text \<open>
  The pattern of line 22 of utils.py. As the file stands the line reads
  \<^verbatim>\<open>cleaned = cleaned.replace(''', "'").replace(''', "'")\<close>: the three quotes open a
  triple-quoted string literal that ends at the next three quotes, so the line is one
  call of \<open>replace\<close> whose first argument is the 15-character string
  \<^verbatim>\<open>, "'").replace(\<close> and whose second argument is a single quote.
\<close>

definition quote_pattern :: pystr where
  "quote_pattern = py '', '' @ [34, 39, 34] @ py '').replace(''"

text \<open>
  \<open>clean_text\<close>: runs of white space become one space, the ends are stripped, and the
  two lines under the comment "Normalize quotes" follow: line 21 replaces a double quote
  (code point 34) by itself twice, line 22 is the call described above.
\<close>

definition clean_text :: "pystr \<Rightarrow> pystr" where
  "clean_text text =
     (let cleaned = re_sub_runs isspace [32] text;
          cleaned = py_strip cleaned;
          cleaned = py_replace [34] [34] (py_replace [34] [34] cleaned);
          cleaned = py_replace quote_pattern [39] cleaned
      in cleaned)"

text \<open>
  \<open>count_words\<close>: \<^verbatim>\<open>len(re.findall(r'\b\w+\b', text.lower()))\<close>. A match of
  \<^verbatim>\<open>\b\w+\b\<close> is a maximal run of word characters.
\<close>

definition count_words :: "unicode_db \<Rightarrow> pystr \<Rightarrow> nat" where
  "count_words db text = length (re_findall_runs (isword db) (lower db text))"

section \<open>plugins/text\_processor/core.py\<close>

definition TEXT_PROCESSOR_MAX_LENGTH :: pystr where
  "TEXT_PROCESSOR_MAX_LENGTH = py ''TEXT_PROCESSOR_MAX_LENGTH''"

text \<open>\<^verbatim>\<open>max_length = int(os.getenv("TEXT_PROCESSOR_MAX_LENGTH", "10000"))\<close>\<close>

definition read_max_length :: "int io" where
  "read_max_length =
     io_bind (os_getenv TEXT_PROCESSOR_MAX_LENGTH (py ''10000''))
       (\<lambda>v. case py_int v of
               None \<Rightarrow> io_raise (Exception ValueError (invalid_literal v))
             | Some m \<Rightarrow> io_return m)"

definition too_long :: "int \<Rightarrow> py_exn" where
  "too_long max_length =
     Exception ValueError
       (py ''Text too long. Maximum length is '' @ str_int max_length @ py '' characters.'')"

definition sentence_end :: "nat \<Rightarrow> bool" where
  "sentence_end c \<longleftrightarrow> c = 46 \<or> c = 33 \<or> c = 63"

text \<open>
  The dictionary \<open>analyze_text\<close> returns. The two last values are floats in the source,
  \<open>round(avg_word_length, 2)\<close> and \<open>round(word_count / 200, 1)\<close>; the record holds the
  exact quotients that are passed to \<open>round\<close>.
\<close>

record text_stats =
  character_count :: nat
  character_count_no_spaces :: nat
  word_count :: nat
  line_count :: nat
  paragraph_count :: nat
  sentence_count :: nat
  average_word_length :: rat
  reading_time_minutes :: rat

definition analyze_text :: "unicode_db \<Rightarrow> pystr \<Rightarrow> text_stats io" where
  "analyze_text db text =
     io_bind read_max_length (\<lambda>max_length.
       if int (length text) > max_length then io_raise (too_long max_length)
       else
         (let cleaned = clean_text text;
              char_count = length text;
              char_count_no_spaces = length (py_replace [32] [] text);
              wc = count_words db text;
              line_cnt = length (py_split [10] text);
              paragraph_cnt = length (filter (\<lambda>p. py_strip p \<noteq> []) (py_split [10, 10] text));
              sentence_cnt = length (re_findall_runs sentence_end text);
              words = py_split_ws text;
              avg_word_length =
                (if words \<noteq> []
                 then of_nat (sum_list (map (\<lambda>w. length (py_strip_chars (py ''.,!?;:'') w)) words))
                      / of_nat (length words)
                 else 0)
          in io_return
               \<lparr>character_count = char_count,
                character_count_no_spaces = char_count_no_spaces,
                word_count = wc,
                line_count = line_cnt,
                paragraph_count = paragraph_cnt,
                sentence_count = sentence_cnt,
                average_word_length = avg_word_length,
                reading_time_minutes = of_nat wc / 200\<rparr>))"

text \<open>
  The score of sentence \<open>i\<close> of \<open>n\<close>: \<open>word_count * position_score\<close> with
  \<open>position_score = 1.0 if i < n * 0.3 else 0.5\<close>. For lengths below \<open>2^53\<close> the float
  comparison \<open>i < n * 0.3\<close> agrees with \<open>10 * i < 3 * n\<close>, and the products by \<open>1.0\<close> and
  \<open>0.5\<close> are exact, so the score is the rational below.
\<close>

definition sentence_score :: "nat \<Rightarrow> nat \<Rightarrow> pystr \<Rightarrow> rat" where
  "sentence_score n i sentence =
     of_nat (length (py_split_ws sentence)) * (if 10 * i < 3 * n then 1 else 1 / 2)"

text \<open>
  The last loop of \<open>summarize_text\<close>: the sentences that are among the top ones, in
  their original order, until \<open>max_sentences\<close> are collected.
\<close>

fun collect_summary :: "pystr list \<Rightarrow> int \<Rightarrow> pystr list \<Rightarrow> pystr list \<Rightarrow> pystr list" where
  "collect_summary tops max_sentences acc [] = acc"
| "collect_summary tops max_sentences acc (s # ss) =
     (if s \<in> set tops
      then (if int (length (acc @ [s])) \<ge> max_sentences then acc @ [s]
            else collect_summary tops max_sentences (acc @ [s]) ss)
      else collect_summary tops max_sentences acc ss)"

text \<open>
  \<open>summarize_text\<close>. \<open>scored_sentences.sort(reverse=True)\<close> orders the pairs
  \<open>(score, sentence)\<close> from the greatest down, pairs compared lexicographically and
  strings by code points.
\<close>

definition summarize_text :: "pystr \<Rightarrow> int \<Rightarrow> pystr io" where
  "summarize_text text max_sentences =
     io_bind read_max_length (\<lambda>max_length.
       if int (length text) > max_length then io_raise (too_long max_length)
       else
         (let sentences = re_split_runs sentence_end text;
              sentences = filter (\<lambda>s. s \<noteq> []) (map py_strip sentences)
          in if int (length sentences) \<le> max_sentences then io_return text
             else
               (let scored_sentences =
                      map (\<lambda>(i, sentence). (sentence_score (length sentences) i sentence, sentence))
                        (enumerate 0 sentences);
                    scored_sentences = rev (sort scored_sentences);
                    top_sentences = map snd (py_slice_to max_sentences scored_sentences);
                    summary_sentences = collect_summary top_sentences max_sentences [] sentences
                in io_return (py_join (py ''. '') summary_sentences @ py ''.''))))"




section \<open>plugins/text\_processor/formatters.py\<close>





section \<open>plugins/text\_processor/\_\_init\_\_.py\<close>

text \<open>The literals of the module: strings, booleans, lists and dictionaries.\<close>

datatype pyval = PStr pystr | PBool bool | PList "pyval list" | PDict "(pystr \<times> pyval) list"

definition module_info :: "(pystr \<times> pyval) list" where
  "module_info =
     [(py ''name'', PStr (py ''Text Processor'')),
      (py ''description'', PStr (py ''Advanced text processing utilities with multiple modules'')),
      (py ''author'', PStr (py ''AgentKit Team'')),
      (py ''version'', PStr (py ''1.0.0'')),
      (py ''platform'', PStr (py ''any'')),
      (py ''python_requires'', PStr (py ''>=3.10'')),
      (py ''dependencies'', PList [PStr (py ''pydantic>=2.0.0'')]),
      (py ''environment_variables'',
         PDict [(py ''TEXT_PROCESSOR_MAX_LENGTH'',
                   PDict [(py ''description'', PStr (py ''Maximum text length to process'')),
                          (py ''default'', PStr (py ''10000'')),
                          (py ''required'', PBool False)])])]"

datatype tool = Analyze_text | Summarize_text | Clean_text | Count_words | Extract_keywords
  | Format_as_markdown | Format_as_html | Format_as_list

definition module_exports :: "(pystr \<times> tool list) list" where
  "module_exports =
     [(py ''tools'',
       [Analyze_text, Summarize_text, Clean_text, Count_words, Extract_keywords,
        Format_as_markdown, Format_as_html, Format_as_list])]"


datatype tool_result = Stats text_stats | Text pystr | Count nat | Words "pystr list"



section \<open>agentkit/cli.py\<close>

text \<open>
  \<open>cli.py\<close> imports \<open>load_plugins\<close> from \<open>loader.py\<close> and \<open>create_env_manager\<close> from
  \<open>env_utils.py\<close>; neither file is part of the sources at hand. What the commands call
  on them is taken as a parameter: each call is an effect on the process that returns a
  result or raises. \<open>'p\<close> is the type of the plugin registry object, \<open>'m\<close> the type of the
  environment manager. The metadata of a plugin and the specification of an environment
  variable are dictionaries; a field is \<open>None\<close> when its key is absent (the commands
  read them with \<open>dict.get\<close>), and the values have the types of the metadata schema.
\<close>

record env_var_spec =
  ev_description :: "pystr option"
  ev_default :: "pystr option"
  ev_required :: "bool option"

record plugin_metadata =
  md_name :: "pystr option"
  md_version :: "pystr option"
  md_description :: "pystr option"
  md_environment_variables :: "(pystr \<times> env_var_spec) list option"

record ('p, 'm) collaborators =
  load_plugins :: "bool \<Rightarrow> 'p io"
  create_env_manager :: "'p \<Rightarrow> 'm io"
  list_plugins :: "'p \<Rightarrow> (pystr \<times> plugin_metadata) list io"
  list_tools :: "'p \<Rightarrow> pystr list io"
  generate_env_template :: "'m \<Rightarrow> pystr \<Rightarrow> unit io"
  get_all_env_vars :: "'m \<Rightarrow> (pystr \<times> env_var_spec) list io"
  validate_env_vars :: "'m \<Rightarrow> pystr list io"
  check_conflicts :: "'m \<Rightarrow> pystr list io"
  get_plugin_env_summary :: "'m \<Rightarrow> pystr io"

text \<open>The namespace \<open>parse_args\<close> returns: the subcommand, if any, and \<open>--output\<close>.\<close>

datatype command = Generate | Validate | Summary | List | Check

record cli_args =
  command :: "command option"
  args_output :: "pystr option"

fun print_lines :: "pystr list \<Rightarrow> unit io" where
  "print_lines [] = io_return ()"
| "print_lines (l # ls) = io_bind (print_line l) (\<lambda>_. print_lines ls)"

text \<open>\<open>v.get('required', False)\<close> as a truth value.\<close>

definition is_required :: "env_var_spec \<Rightarrow> bool" where
  "is_required v \<longleftrightarrow> ev_required v = Some True"

definition bullet :: "pystr \<Rightarrow> pystr" where
  "bullet item = py ''   '' @ [8226] @ py '' '' @ item"

definition env_vars_line :: "nat \<Rightarrow> (pystr \<times> env_var_spec) list \<Rightarrow> pystr" where
  "env_vars_line icon env_vars =
     [icon] @ py '' '' @ str_nat (length env_vars) @ py '' environment variables (''
       @ str_nat (length (filter (\<lambda>(k, v). is_required v) env_vars)) @ py '' required)''"

definition cmd_generate :: "('p, 'm) collaborators \<Rightarrow> cli_args \<Rightarrow> int option io" where
  "cmd_generate c args =
     io_bind (load_plugins c True) (\<lambda>plugins.
     io_bind (create_env_manager c plugins) (\<lambda>env_manager.
     let output_file = (case args_output args of
                          None \<Rightarrow> py ''.env.template''
                        | Some f \<Rightarrow> if f = [] then py ''.env.template'' else f)
     in
     io_bind (generate_env_template c env_manager output_file) (\<lambda>_.
     io_bind (print_line ([9989] @ py '' Generated '' @ output_file)) (\<lambda>_.
     io_bind (list_plugins c plugins) (\<lambda>ps.
     io_bind (print_line ([128230] @ py '' Found '' @ str_nat (length ps) @ py '' capabilities''))
       (\<lambda>_.
     io_bind (get_all_env_vars c env_manager) (\<lambda>env_vars.
     io_bind (print_line (env_vars_line 128295 env_vars)) (\<lambda>_.
     io_return None))))))))"

definition cmd_validate :: "('p, 'm) collaborators \<Rightarrow> cli_args \<Rightarrow> int option io" where
  "cmd_validate c args =
     io_bind (load_plugins c True) (\<lambda>plugins.
     io_bind (create_env_manager c plugins) (\<lambda>env_manager.
     io_bind (validate_env_vars c env_manager) (\<lambda>missing.
     io_bind (check_conflicts c env_manager) (\<lambda>conflicts.
       if missing = [] \<and> conflicts = []
       then io_bind (print_line ([9989] @ py '' Environment configuration is valid!''))
              (\<lambda>_. io_return (Some 0))
       else
         io_bind (if missing \<noteq> []
                  then print_lines
                         ([[10060] @ py '' Missing required environment variables:'']
                          @ map bullet missing @ [[]])
                  else io_return ()) (\<lambda>_.
         io_bind (if conflicts \<noteq> []
                  then print_lines
                         ([[9888, 65039] @ py ''  Potential naming conflicts detected:'']
                          @ map bullet conflicts @ [[]])
                  else io_return ()) (\<lambda>_.
         io_return (Some 1)))))))"

definition cmd_summary :: "('p, 'm) collaborators \<Rightarrow> cli_args \<Rightarrow> int option io" where
  "cmd_summary c args =
     io_bind (load_plugins c True) (\<lambda>plugins.
     io_bind (create_env_manager c plugins) (\<lambda>env_manager.
     io_bind (get_plugin_env_summary c env_manager) (\<lambda>summary.
     io_bind (print_line summary) (\<lambda>_.
     io_return None))))"

text \<open>
  \<open>t.split('.', 1)[1]\<close>: what follows the first dot. \<open>cmd_list\<close> applies it only to names
  that start with the plugin name and a dot, so the index is always in range.
\<close>

definition after_first_dot :: "pystr \<Rightarrow> pystr" where
  "after_first_dot t = drop 1 (dropWhile (\<lambda>c. c \<noteq> 46) t)"

definition startswith :: "pystr \<Rightarrow> pystr \<Rightarrow> bool" where
  "startswith s pre \<longleftrightarrow> take (length pre) s = pre"

text \<open>The body of the \<open>for\<close> loop of \<open>cmd_list\<close>, for one plugin.\<close>

definition list_one_plugin ::
  "('p, 'm) collaborators \<Rightarrow> 'p \<Rightarrow> pystr \<times> plugin_metadata \<Rightarrow> unit io" where
  "list_one_plugin c plugins entry =
     (case entry of (plugin_name, metadata) \<Rightarrow>
       (let name = (case md_name metadata of None \<Rightarrow> plugin_name | Some n \<Rightarrow> n);
            version = (case md_version metadata of None \<Rightarrow> py ''unknown'' | Some v \<Rightarrow> v);
            description =
              (case md_description metadata of None \<Rightarrow> py ''No description'' | Some d \<Rightarrow> d)
        in
        io_bind (print_line ([128268] @ py '' '' @ name @ py '' v'' @ version)) (\<lambda>_.
        io_bind (print_line (py ''   '' @ description)) (\<lambda>_.
        io_bind (list_tools c plugins) (\<lambda>tools.
        let plugin_tools = filter (\<lambda>tool. startswith tool (plugin_name @ py ''.'')) tools in
        io_bind (if plugin_tools \<noteq> []
                 then print_line (py ''   Tools: ''
                        @ py_join (py '', '') (map after_first_dot plugin_tools))
                 else io_return ()) (\<lambda>_.
        let env_vars = (case md_environment_variables metadata of None \<Rightarrow> [] | Some e \<Rightarrow> e);
            required = map fst (filter (\<lambda>(k, v). is_required v) env_vars);
            optional = map fst (filter (\<lambda>(k, v). \<not> is_required v) env_vars)
        in
        io_bind (if env_vars \<noteq> [] \<and> required \<noteq> []
                 then print_line (py ''   Required env vars: '' @ py_join (py '', '') required)
                 else io_return ()) (\<lambda>_.
        io_bind (if env_vars \<noteq> [] \<and> optional \<noteq> []
                 then print_line (py ''   Optional env vars: '' @ py_join (py '', '') optional)
                 else io_return ()) (\<lambda>_.
        print_line []))))))))"

fun for_each :: "('a \<Rightarrow> unit io) \<Rightarrow> 'a list \<Rightarrow> unit io" where
  "for_each body [] = io_return ()"
| "for_each body (x # xs) = io_bind (body x) (\<lambda>_. for_each body xs)"

definition cmd_list :: "('p, 'm) collaborators \<Rightarrow> cli_args \<Rightarrow> int option io" where
  "cmd_list c args =
     io_bind (load_plugins c True) (\<lambda>plugins.
     io_bind (list_plugins c plugins) (\<lambda>ps.
     io_bind (print_line ([128230] @ py '' Loaded Capabilities ('' @ str_nat (length ps) @ py ''):''))
       (\<lambda>_.
     io_bind (print_line []) (\<lambda>_.
     io_bind (list_plugins c plugins) (\<lambda>ps'.
     io_bind (for_each (list_one_plugin c plugins) ps') (\<lambda>_.
     io_return None))))))"

text \<open>The first lines \<open>cmd_check\<close> prints.\<close>

definition running_checks_line :: pystr where
  "running_checks_line = [128269] @ py '' Running environment checks...'' @ [10]"

definition loaded_line :: "nat \<Rightarrow> pystr" where
  "loaded_line n = [128230] @ py '' Loaded '' @ str_nat n @ py '' capabilities''"

definition found_tools_line :: "nat \<Rightarrow> pystr" where
  "found_tools_line n = [128295] @ py '' Found '' @ str_nat n @ py '' tools''"

definition cmd_check :: "('p, 'm) collaborators \<Rightarrow> cli_args \<Rightarrow> int option io" where
  "cmd_check c args =
     io_bind (load_plugins c True) (\<lambda>plugins.
     io_bind (create_env_manager c plugins) (\<lambda>env_manager.
     io_bind (print_line running_checks_line) (\<lambda>_.
     io_bind (list_plugins c plugins) (\<lambda>ps.
     io_bind (print_line (loaded_line (length ps))) (\<lambda>_.
     io_bind (list_tools c plugins) (\<lambda>tools.
     io_bind (print_line (found_tools_line (length tools))) (\<lambda>_.
     io_bind (get_all_env_vars c env_manager) (\<lambda>env_vars.
     io_bind (print_lines [env_vars_line 127757 env_vars, []]) (\<lambda>_.
     io_bind (validate_env_vars c env_manager) (\<lambda>missing.
     io_bind (check_conflicts c env_manager) (\<lambda>conflicts.
     io_bind (if missing \<noteq> []
              then print_lines
                     ([[10060] @ py '' Missing required environment variables:'']
                      @ map bullet missing @ [[]])
              else print_lines
                     [[9989] @ py '' All required environment variables are set'', []]) (\<lambda>_.
     io_bind (if conflicts \<noteq> []
              then print_lines
                     ([[9888, 65039] @ py ''  Potential naming conflicts:'']
                      @ map bullet conflicts @ [[]])
              else print_lines [[9989] @ py '' No naming conflicts detected'', []]) (\<lambda>_.
     if missing \<noteq> [] \<or> conflicts \<noteq> []
     then
       io_bind (print_line ([128161] @ py '' Recommendations:'')) (\<lambda>_.
       io_bind (if missing \<noteq> []
                then print_lines
                       [bullet (py ''Run '' @ [39] @ py ''python -m agentkit generate'' @ [39]
                                @ py '' to create .env.template''),
                        bullet (py ''Copy .env.template to .env and configure required variables'')]
                else io_return ()) (\<lambda>_.
       io_bind (if conflicts \<noteq> []
                then print_line
                       (bullet (py ''Consider renaming conflicting variables for clarity''))
                else io_return ()) (\<lambda>_.
       io_return (Some 1))))
     else io_return (Some 0))))))))))))))"

text \<open>\<open>set_defaults(func=...)\<close>: the function of each subcommand.\<close>

fun func :: "('p, 'm) collaborators \<Rightarrow> command \<Rightarrow> cli_args \<Rightarrow> int option io" where
  "func c Generate = cmd_generate c"
| "func c Validate = cmd_validate c"
| "func c Summary = cmd_summary c"
| "func c List = cmd_list c"
| "func c Check = cmd_check c"

text \<open>\<open>r or 0\<close> for the value a command returns: \<open>None\<close> and \<open>0\<close> are false.\<close>

definition or_0 :: "int option \<Rightarrow> int" where
  "or_0 r = (case r of None \<Rightarrow> 0 | Some n \<Rightarrow> if n = 0 then 0 else n)"

text \<open>
  \<open>main\<close>, from the namespace \<open>parse_args\<close> returned; \<open>usage\<close> is the text that
  \<open>parser.print_help()\<close> prints. The value is what \<open>sys.exit(main())\<close> hands to the
  system as the exit code of the process. An exception that is neither a
  \<open>KeyboardInterrupt\<close> nor an \<open>Exception\<close> passes through.
\<close>

definition main :: "('p, 'm) collaborators \<Rightarrow> pystr \<Rightarrow> cli_args \<Rightarrow> int io" where
  "main c usage args st =
     (case command args of
        None \<Rightarrow> io_bind (print_line usage) (\<lambda>_. io_return 1) st
      | Some cmd \<Rightarrow>
          (case func c cmd args st of
             (Inr r, st') \<Rightarrow> (Inr (or_0 r), st')
           | (Inl KeyboardInterrupt, st') \<Rightarrow>
               io_bind (print_line ([10, 9888, 65039] @ py ''  Interrupted by user''))
                 (\<lambda>_. io_return 1) st'
           | (Inl (Exception cls msg), st') \<Rightarrow>
               io_bind (print_line ([10060] @ py '' Error: '' @ msg)) (\<lambda>_. io_return 1) st'
           | (Inl SystemExit, st') \<Rightarrow> (Inl SystemExit, st')))"



section \<open>The plugin bundle contract, the loader, and what is derived from the registry\<close>

text \<open>
  \<open>loader.py\<close>, \<open>env_utils.py\<close> and \<open>depcheck.py\<close> are not among the sources at hand. The
  definitions of this section follow the specification of these modules.
\<close>

subsection \<open>The metadata schema and the bundle contract\<close>

definition has_key :: "(pystr \<times> 'v) list \<Rightarrow> pystr \<Rightarrow> bool" where
  "has_key d k \<longleftrightarrow> k \<in> fst ` set d"

definition is_str :: "pyval \<Rightarrow> bool" where
  "is_str v = (case v of PStr s \<Rightarrow> True | _ \<Rightarrow> False)"

definition get_str :: "(pystr \<times> pyval) list \<Rightarrow> pystr \<Rightarrow> pystr" where
  "get_str d k = (case map_of d k of Some (PStr s) \<Rightarrow> s | _ \<Rightarrow> [])"

definition has_str :: "(pystr \<times> pyval) list \<Rightarrow> pystr \<Rightarrow> bool" where
  "has_str d k = (case map_of d k of Some v \<Rightarrow> is_str v | None \<Rightarrow> False)"

text \<open>
  Modelled from the spec: the validation of one entry of \<open>environment_variables\<close> by the
  loader (\<open>loader.py\<close> is missing): "\<open>environment_variables\<close> entries must each specify at
  least \<open>description\<close> and \<open>required\<close>".
\<close>

definition env_entry_ok :: "pyval \<Rightarrow> bool" where
  "env_entry_ok v =
     (case v of
        PDict e \<Rightarrow> has_key e (py ''description'') \<and> has_key e (py ''required'')
      | _ \<Rightarrow> False)"

text \<open>
  Modelled from the spec: the Metadata Schema that the loader (\<open>loader.py\<close> is missing)
  validates a metadata block against: name, version, description, author, platform and
  the runtime-version constraint (the key \<open>python_requires\<close> of a bundle) are strings,
  \<open>dependencies\<close> is a sequence of strings, \<open>environment_variables\<close> is a mapping of valid
  entries.
\<close>

definition metadata_schema_ok :: "(pystr \<times> pyval) list \<Rightarrow> bool" where
  "metadata_schema_ok info \<longleftrightarrow>
     has_str info (py ''name'') \<and> has_str info (py ''version'') \<and>
     has_str info (py ''description'') \<and> has_str info (py ''author'') \<and>
     has_str info (py ''platform'') \<and> has_str info (py ''python_requires'') \<and>
     (case map_of info (py ''dependencies'') of
        Some (PList ds) \<Rightarrow> list_all is_str ds
      | _ \<Rightarrow> False) \<and>
     (case map_of info (py ''environment_variables'') of
        Some (PDict es) \<Rightarrow> list_all (\<lambda>(k, v). env_entry_ok v) es
      | _ \<Rightarrow> False)"

text \<open>
  Modelled from the spec: the plugin bundle contract checked by the loader (\<open>loader.py\<close>
  is missing): "(a) a metadata block matching the Metadata Schema, (b) an exports block
  listing tool callables". \<open>'t\<close> is the type of the callables.
\<close>

definition bundle_contract :: "(pystr \<times> pyval) list \<Rightarrow> (pystr \<times> 't list) list \<Rightarrow> bool" where
  "bundle_contract info exports \<longleftrightarrow> metadata_schema_ok info \<and> has_key exports (py ''tools'')"

subsection \<open>The data model of the registry\<close>

record EnvVarSpec =
  var_name :: pystr
  var_description :: pystr
  var_default :: "pystr option"
  var_required :: bool

record PluginMetadata =
  name :: pystr
  plugin_id :: pystr
  version :: pystr
  description :: pystr
  author :: pystr
  platform :: pystr
  runtime_requires :: pystr
  dependencies :: "pystr list"
  environment_variables :: "EnvVarSpec list"

record 't Tool =
  qualified_name :: pystr
  plugin_identifier :: pystr
  callable :: 't

record 't PluginRegistry =
  plugins :: "PluginMetadata list"
  tools :: "'t Tool list"

text \<open>
  Modelled from the spec: the typed metadata the loader (\<open>loader.py\<close> is missing) builds
  from a validated metadata block; \<open>environment_variables\<close> keeps the order of declaration.
\<close>

definition to_env_var_spec :: "pystr \<times> pyval \<Rightarrow> EnvVarSpec" where
  "to_env_var_spec entry =
     (case entry of (k, v) \<Rightarrow>
        (let e = (case v of PDict e \<Rightarrow> e | _ \<Rightarrow> [])
         in \<lparr>var_name = k,
             var_description = get_str e (py ''description''),
             var_default = (case map_of e (py ''default'') of Some (PStr s) \<Rightarrow> Some s | _ \<Rightarrow> None),
             var_required = (map_of e (py ''required'') = Some (PBool True))\<rparr>))"

definition to_metadata :: "pystr \<Rightarrow> (pystr \<times> pyval) list \<Rightarrow> PluginMetadata" where
  "to_metadata ident info =
     \<lparr>name = get_str info (py ''name''),
      plugin_id = ident,
      version = get_str info (py ''version''),
      description = get_str info (py ''description''),
      author = get_str info (py ''author''),
      platform = get_str info (py ''platform''),
      runtime_requires = get_str info (py ''python_requires''),
      dependencies =
        (case map_of info (py ''dependencies'') of
           Some (PList ds) \<Rightarrow> map (\<lambda>d. case d of PStr s \<Rightarrow> s | _ \<Rightarrow> []) ds
         | _ \<Rightarrow> []),
      environment_variables =
        (case map_of info (py ''environment_variables'') of
           Some (PDict es) \<Rightarrow> map to_env_var_spec es
         | _ \<Rightarrow> [])\<rparr>"

subsection \<open>The plugin loader\<close>

text \<open>
  A candidate bundle: a subdirectory of the plugin root, with the identifier derived from
  its location and the outcome of importing its entry module: either the reason of the
  failure, or the module with its metadata block and its exports block, each of which
  may be missing.
\<close>

record 't plugin_module =
  metadata_block :: "(pystr \<times> pyval) list option"
  exports_block :: "(pystr \<times> 't list) list option"

record 't candidate =
  cand_identifier :: pystr
  cand_import :: "pystr + 't plugin_module"

datatype failure = Import_failed pystr | Missing_metadata | Missing_exports
  | Invalid_metadata | Duplicate_identifier | Duplicate_tool pystr

record 't load_result =
  registry :: "'t PluginRegistry"
  failures :: "(pystr \<times> failure) list"

text \<open>
  Modelled from the spec: steps 2 to 4 of the loader's algorithm (\<open>loader.py\<close> is
  missing) for one candidate: the import, the presence of the two blocks, the validation
  of the metadata. The value is the reason of the failure or the validated blocks.
\<close>

definition check_candidate ::
  "'t candidate \<Rightarrow> failure + ((pystr \<times> pyval) list \<times> 't list)" where
  "check_candidate c =
     (case cand_import c of
        Inl reason \<Rightarrow> Inl (Import_failed reason)
      | Inr m \<Rightarrow>
          (case metadata_block m of
             None \<Rightarrow> Inl Missing_metadata
           | Some info \<Rightarrow>
               (case exports_block m of
                  None \<Rightarrow> Inl Missing_exports
                | Some exports \<Rightarrow>
                    if bundle_contract info exports
                    then Inr (info, case map_of exports (py ''tools'') of Some ts \<Rightarrow> ts | None \<Rightarrow> [])
                    else Inl Invalid_metadata)))"

text \<open>
  Modelled from the spec: step 5 of the loader's algorithm (\<open>loader.py\<close> is missing):
  "Register each exported tool under \<open><identifier>.<tool_name>\<close>; a duplicate qualified
  name is a load failure for that tool (registry keeps the first-registered one, skips
  the duplicate, and records a warning)". \<open>tool_name\<close> gives the name of a callable.
\<close>

fun register_tools ::
  "('t \<Rightarrow> pystr) \<Rightarrow> pystr \<Rightarrow> 't list \<Rightarrow> 't load_result \<Rightarrow> 't load_result" where
  "register_tools tool_name ident [] res = res"
| "register_tools tool_name ident (f # fs) res =
     (let qn = ident @ py ''.'' @ tool_name f in
      if qn \<in> qualified_name ` set (tools (registry res))
      then register_tools tool_name ident fs
             (res\<lparr>failures := failures res @ [(ident, Duplicate_tool qn)]\<rparr>)
      else register_tools tool_name ident fs
             (res\<lparr>registry := (registry res)\<lparr>tools := tools (registry res) @
                [\<lparr>qualified_name = qn, plugin_identifier = ident, callable = f\<rparr>]\<rparr>\<rparr>))"

text \<open>
  Modelled from the spec: the loader's loop body (\<open>loader.py\<close> is missing): a failure
  "is caught, recorded as a per-plugin load failure, and does not abort the loop"; a
  "collision with an already-registered plugin is a load failure for the later one".
\<close>

definition load_candidate ::
  "('t \<Rightarrow> pystr) \<Rightarrow> 't load_result \<Rightarrow> 't candidate \<Rightarrow> 't load_result" where
  "load_candidate tool_name res c =
     (case check_candidate c of
        Inl reason \<Rightarrow> res\<lparr>failures := failures res @ [(cand_identifier c, reason)]\<rparr>
      | Inr (info, ts) \<Rightarrow>
          if cand_identifier c \<in> plugin_id ` set (plugins (registry res))
          then res\<lparr>failures := failures res @ [(cand_identifier c, Duplicate_identifier)]\<rparr>
          else register_tools tool_name (cand_identifier c) ts
                 (res\<lparr>registry := (registry res)\<lparr>plugins := plugins (registry res) @
                    [to_metadata (cand_identifier c) info]\<rparr>\<rparr>))"

text \<open>
  Modelled from the spec: the Plugin Loader (\<open>loader.py\<close> is missing), over the candidate
  bundles of a plugin root in the order of enumeration: it returns "the assembled
  registry together with a list of (candidate, failure reason) pairs".
\<close>

definition plugin_loader :: "('t \<Rightarrow> pystr) \<Rightarrow> 't candidate list \<Rightarrow> 't load_result" where
  "plugin_loader tool_name cands =
     foldl (load_candidate tool_name)
       \<lparr>registry = \<lparr>plugins = [], tools = []\<rparr>, failures = []\<rparr> cands"

subsection \<open>The environment reconciliation engine\<close>

text \<open>
  Modelled from the spec: the merge of a further declaration into the merged
  specification of the same name (\<open>env_utils.py\<close> is missing): "\<open>required\<close> = OR of all
  declarations, \<open>description\<close> and \<open>default\<close> from the first plugin (by registry
  iteration) that declared a non-empty value for each field".
\<close>

definition nonempty_default :: "pystr option \<Rightarrow> bool" where
  "nonempty_default d = (case d of None \<Rightarrow> False | Some s \<Rightarrow> s \<noteq> [])"

definition merge_spec :: "EnvVarSpec \<Rightarrow> EnvVarSpec \<Rightarrow> EnvVarSpec" where
  "merge_spec merged d =
     \<lparr>var_name = var_name merged,
      var_description =
        (if var_description merged \<noteq> [] then var_description merged else var_description d),
      var_default =
        (if nonempty_default (var_default merged) then var_default merged else var_default d),
      var_required = (var_required merged \<or> var_required d)\<rparr>"

fun add_declaration :: "EnvVarSpec list \<Rightarrow> EnvVarSpec \<Rightarrow> EnvVarSpec list" where
  "add_declaration [] d = [d]"
| "add_declaration (m # ms) d =
     (if var_name m = var_name d then merge_spec m d # ms else m # add_declaration ms d)"

text \<open>
  Modelled from the spec: every declaration of the registry, plugin after plugin in the
  order of registration, and within a plugin in the order of declaration.
\<close>

definition declarations :: "'t PluginRegistry \<Rightarrow> EnvVarSpec list" where
  "declarations reg = concat (map environment_variables (plugins reg))"

text \<open>
  Modelled from the spec: \<open>get_all_env_vars\<close> of the environment manager
  (\<open>env_utils.py\<close> is missing): the mapping from name to merged specification, in the
  order in which the names were first declared.
\<close>

definition get_all_env_vars_spec :: "'t PluginRegistry \<Rightarrow> EnvVarSpec list" where
  "get_all_env_vars_spec reg = foldl add_declaration [] (declarations reg)"

definition lookup_var :: "EnvVarSpec list \<Rightarrow> pystr \<Rightarrow> EnvVarSpec option" where
  "lookup_var specs n = find (\<lambda>s. var_name s = n) specs"

subsection \<open>The dependency extractor\<close>

text \<open>
  Modelled from the spec: \<open>extract\<close> of the dependency extractor (\<open>depcheck.py\<close> is
  missing): the declared dependencies "if present and non-empty", otherwise the library
  names inferred from the plugin's source files, which are given by \<open>inferred\<close>.
\<close>

definition extract_dependencies :: "(pystr \<Rightarrow> pystr list) \<Rightarrow> PluginMetadata \<Rightarrow> pystr list" where
  "extract_dependencies inferred p =
     (if dependencies p \<noteq> [] then dependencies p else inferred (plugin_id p))"

text \<open>
  Modelled from the spec: \<open>generate_requirements\<close> (\<open>depcheck.py\<close> is missing): "one
  requirement-specifier per line, deduplicated, sorted lexicographically". Strings are
  ordered as Python orders them: by code points, a proper prefix first.
\<close>

definition requirement_lines :: "(pystr \<Rightarrow> pystr list) \<Rightarrow> 't PluginRegistry \<Rightarrow> pystr list" where
  "requirement_lines inferred reg =
     sort (remdups (concat (map (extract_dependencies inferred) (plugins reg))))"

definition generate_requirements :: "(pystr \<Rightarrow> pystr list) \<Rightarrow> 't PluginRegistry \<Rightarrow> pystr" where
  "generate_requirements inferred reg = py_join [10] (requirement_lines inferred reg)"

section \<open>Example inputs\<close>

text \<open>
  A process with an empty environment, the character tables restricted to ASCII, and
  collaborators that find no plugin and report the given lists of missing variables and
  of conflicts.
\<close>

definition fresh_process :: process where
  "fresh_process = \<lparr>environ = Map.empty, env_reads = [], stdout = []\<rparr>"

definition ascii_db :: unicode_db where
  "ascii_db =
     \<lparr>isalnum = (\<lambda>c. (48 \<le> c \<and> c \<le> 57) \<or> (65 \<le> c \<and> c \<le> 90) \<or> (97 \<le> c \<and> c \<le> 122)),
      lower = map (\<lambda>c. if 65 \<le> c \<and> c \<le> 90 then c + 32 else c)\<rparr>"

definition example_collaborators :: "pystr list \<Rightarrow> pystr list \<Rightarrow> (unit, unit) collaborators" where
  "example_collaborators missing conflicts =
     \<lparr>load_plugins = (\<lambda>silent. io_return ()),
      create_env_manager = (\<lambda>p. io_return ()),
      list_plugins = (\<lambda>p. io_return []),
      list_tools = (\<lambda>p. io_return []),
      generate_env_template = (\<lambda>m path. io_return ()),
      get_all_env_vars = (\<lambda>m. io_return []),
      validate_env_vars = (\<lambda>m. io_return missing),
      check_conflicts = (\<lambda>m. io_return conflicts),
      get_plugin_env_summary = (\<lambda>m. io_return [])\<rparr>"

text \<open>A plugin of the registry that declares the given dependencies and nothing else.\<close>

definition plugin_requiring :: "pystr \<Rightarrow> pystr list \<Rightarrow> PluginMetadata" where
  "plugin_requiring ident deps =
     \<lparr>name = ident, plugin_id = ident, version = py ''1.0.0'', description = [], author = [],
      platform = py ''any'', runtime_requires = [], dependencies = deps,
      environment_variables = []\<rparr>"

text \<open>A plugin of the registry that declares the given environment variables.\<close>

definition plugin_declaring :: "pystr \<Rightarrow> EnvVarSpec list \<Rightarrow> PluginMetadata" where
  "plugin_declaring ident vars =
     \<lparr>name = ident, plugin_id = ident, version = py ''1.0.0'', description = [], author = [],
      platform = py ''any'', runtime_requires = [], dependencies = [],
      environment_variables = vars\<rparr>"

text \<open>
  The names of the exported callables, the candidate bundle of the text processor, and
  a candidate whose metadata lacks the \<open>name\<close> field.
\<close>

fun tool_name :: "tool \<Rightarrow> pystr" where
  "tool_name Analyze_text = py ''analyze_text''"
| "tool_name Summarize_text = py ''summarize_text''"
| "tool_name Clean_text = py ''clean_text''"
| "tool_name Count_words = py ''count_words''"
| "tool_name Extract_keywords = py ''extract_keywords''"
| "tool_name Format_as_markdown = py ''format_as_markdown''"
| "tool_name Format_as_html = py ''format_as_html''"
| "tool_name Format_as_list = py ''format_as_list''"

definition text_processor_candidate :: "tool candidate" where
  "text_processor_candidate =
     \<lparr>cand_identifier = py ''text_processor'',
      cand_import = Inr \<lparr>metadata_block = Some module_info, exports_block = Some module_exports\<rparr>\<rparr>"

definition nameless_candidate :: "tool candidate" where
  "nameless_candidate =
     \<lparr>cand_identifier = py ''nameless'',
      cand_import =
        Inr \<lparr>metadata_block = Some [(py ''version'', PStr (py ''0.1''))],
             exports_block = Some [(py ''tools'', [Clean_text])]\<rparr>\<rparr>"

section \<open>Properties of the command-line front end\<close>

lemma print_line_run: "print_line s st = (Inr (), st\<lparr>stdout := stdout st @ [s]\<rparr>)"
  by (simp add: print_line_def)

lemma print_lines_run: "print_lines ls st = (Inr (), st\<lparr>stdout := stdout st @ ls\<rparr>)"
  by (induction ls arbitrary: st) (simp_all add: io_return_def io_bind_def print_line_def)

text \<open>
  Claim C1: the exit code of \<open>validate\<close> and of \<open>check\<close> is 0 exactly when the list of
  missing required variables and the list of conflicts are both empty, and 1 otherwise.
  The lists are what \<open>validate_env_vars\<close> and \<open>check_conflicts\<close> return; the premises say
  that the calls the command makes before its verdict return, each in the state the
  call before it (and the lines printed in between) left.
\<close>

theorem validate_and_check_exit_code:
  "(load_plugins c True st = (Inr pl, s1) \<and>
    create_env_manager c pl s1 = (Inr em, s2) \<and>
    validate_env_vars c em s2 = (Inr missing, s3) \<and>
    check_conflicts c em s3 = (Inr conflicts, s4)
    \<longrightarrow> fst (main c usage \<lparr>command = Some Validate, args_output = out\<rparr> st)
          = Inr (if missing = [] \<and> conflicts = [] then 0 else 1)) \<and>
   (load_plugins c True st = (Inr pl, s1) \<and>
    create_env_manager c pl s1 = (Inr em, s2) \<and>
    list_plugins c pl (snd (print_line running_checks_line s2)) = (Inr ps, t3) \<and>
    list_tools c pl (snd (print_line (loaded_line (length ps)) t3)) = (Inr ts, t4) \<and>
    get_all_env_vars c em (snd (print_line (found_tools_line (length ts)) t4)) = (Inr evs, t5) \<and>
    validate_env_vars c em (snd (print_lines [env_vars_line 127757 evs, []] t5))
      = (Inr missing, t6) \<and>
    check_conflicts c em t6 = (Inr conflicts, t7)
    \<longrightarrow> fst (main c usage \<lparr>command = Some Check, args_output = out\<rparr> st)
          = Inr (if missing = [] \<and> conflicts = [] then 0 else 1))"
  by (auto simp: main_def cmd_validate_def cmd_check_def io_bind_def io_return_def or_0_def
      print_line_run print_lines_run)

theorem validate_and_check_exit_code_witness:
  "fst (main (example_collaborators [py ''API_KEY''] []) []
          \<lparr>command = Some Validate, args_output = None\<rparr> fresh_process) = Inr 1 \<and>
   fst (main (example_collaborators [] []) []
          \<lparr>command = Some Validate, args_output = None\<rparr> fresh_process) = Inr 0"
  using validate_and_check_exit_code [where c = "example_collaborators [py ''API_KEY''] []"
      and st = fresh_process and pl = "()" and ?s1.0 = fresh_process and em = "()"
      and ?s2.0 = fresh_process and missing = "[py ''API_KEY'']" and ?s3.0 = fresh_process
      and conflicts = "[]" and ?s4.0 = fresh_process and usage = "[]" and out = None]
    validate_and_check_exit_code [where c = "example_collaborators [] []"
      and st = fresh_process and pl = "()" and ?s1.0 = fresh_process and em = "()"
      and ?s2.0 = fresh_process and missing = "[]" and ?s3.0 = fresh_process
      and conflicts = "[]" and ?s4.0 = fresh_process and usage = "[]" and out = None]
  by (simp add: example_collaborators_def io_return_def)

text \<open>
  Claim C2 as it is worded takes every exception the command raises to the exit code 1.
  \<open>main\<close> catches \<open>KeyboardInterrupt\<close> and \<open>Exception\<close> only: a \<open>SystemExit\<close> raised under
  the command (here by the loader, under \<open>summary\<close>) leaves \<open>main\<close> as it is, and \<open>main\<close>
  returns no exit code.
\<close>

theorem main_systemexit_passes_through:
  "fst (func ((example_collaborators [] [])\<lparr>load_plugins := (\<lambda>silent. io_raise SystemExit)\<rparr>)
          Summary \<lparr>command = Some Summary, args_output = None\<rparr> fresh_process)
     = Inl SystemExit \<and>
   fst (main ((example_collaborators [] [])\<lparr>load_plugins := (\<lambda>silent. io_raise SystemExit)\<rparr>)
          [] \<lparr>command = Some Summary, args_output = None\<rparr> fresh_process)
     = Inl SystemExit \<and>
   fst (main ((example_collaborators [] [])\<lparr>load_plugins := (\<lambda>silent. io_raise SystemExit)\<rparr>)
          [] \<lparr>command = Some Summary, args_output = None\<rparr> fresh_process)
     \<noteq> Inr 1"
  by (simp add: main_def cmd_summary_def example_collaborators_def io_bind_def io_raise_def)

text \<open>
  Claim C2, amended: when the function of the dispatched command raises an instance of
  \<open>Exception\<close> or a \<open>KeyboardInterrupt\<close>, \<open>main\<close> returns 1; an exception that is
  neither (\<open>SystemExit\<close>) passes through \<open>main\<close>; when the function returns, \<open>main\<close>
  returns its result, \<open>None\<close> counting as 0.
\<close>

theorem main_exit_code_of_command:
  assumes "command args = Some cmd"
  shows "(func c cmd args st = (Inl (Exception cls msg), st') \<longrightarrow>
            fst (main c usage args st) = Inr 1) \<and>
         (func c cmd args st = (Inl KeyboardInterrupt, st') \<longrightarrow>
            fst (main c usage args st) = Inr 1) \<and>
         (func c cmd args st = (Inl SystemExit, st') \<longrightarrow>
            main c usage args st = (Inl SystemExit, st')) \<and>
         (func c cmd args st = (Inr r, st') \<longrightarrow>
            fst (main c usage args st) = Inr (case r of None \<Rightarrow> 0 | Some n \<Rightarrow> n))"
  using assms
  by (auto simp: main_def io_bind_def io_return_def or_0_def print_line_def split: option.splits)

theorem main_exit_code_of_command_witness:
  "fst (main ((example_collaborators [] [])
               \<lparr>load_plugins := (\<lambda>silent. io_raise (Exception OtherError (py ''no plugin root'')))\<rparr>)
          [] \<lparr>command = Some Summary, args_output = None\<rparr> fresh_process) = Inr 1 \<and>
   fst (main (example_collaborators [] []) []
          \<lparr>command = Some Summary, args_output = None\<rparr> fresh_process) = Inr 0"
  using main_exit_code_of_command [where args = "\<lparr>command = Some Summary, args_output = None\<rparr>"
      and cmd = Summary and st = fresh_process and st' = fresh_process and cls = OtherError
      and msg = "py ''no plugin root''" and usage = "[]"
      and c = "(example_collaborators [] [])
               \<lparr>load_plugins := (\<lambda>silent. io_raise (Exception OtherError (py ''no plugin root'')))\<rparr>"]
    main_exit_code_of_command [where args = "\<lparr>command = Some Summary, args_output = None\<rparr>"
      and cmd = Summary and st = fresh_process
      and st' = "fresh_process\<lparr>stdout := [[]]\<rparr>" and r = None and usage = "[]"
      and c = "example_collaborators [] []"]
  by (simp add: example_collaborators_def io_return_def io_raise_def io_bind_def cmd_summary_def
      print_line_def fresh_process_def)

section \<open>The process environment\<close>

















section \<open>Properties of the text processor\<close>

lemma py_int_default: "py_int (py ''10000'') = Some 10000"
  by (simp add: py_int_def py_def int_space_def isspace_def isdigit_def digits_val_def)

lemma read_max_length_result:
  assumes "(environ st TEXT_PROCESSOR_MAX_LENGTH = None \<and> m = 10000) \<or>
           (\<exists>v. environ st TEXT_PROCESSOR_MAX_LENGTH = Some v \<and> py_int v = Some m)"
  shows "read_max_length st = (Inr m, st\<lparr>env_reads := env_reads st @ [TEXT_PROCESSOR_MAX_LENGTH]\<rparr>)"
  using assms
  by (auto simp: read_max_length_def io_bind_def os_getenv_def io_return_def py_int_default)

text \<open>
  Claim C8: when \<open>TEXT_PROCESSOR_MAX_LENGTH\<close> is unset (the maximum \<open>m\<close> is then 10000) or
  parses as the integer \<open>m\<close>, and \<open>max_sentences\<close> is between 1 and 10, \<open>analyze_text\<close> and
  \<open>summarize_text\<close> raise \<open>ValueError\<close> if and only if the text is longer than \<open>m\<close>, and
  return a result on every other text.
\<close>

theorem text_too_long_iff:
  assumes "(environ st TEXT_PROCESSOR_MAX_LENGTH = None \<and> m = 10000) \<or>
           (\<exists>v. environ st TEXT_PROCESSOR_MAX_LENGTH = Some v \<and> py_int v = Some m)"
    and "1 \<le> max_sentences" and "max_sentences \<le> 10"
  shows "((\<exists>msg. fst (analyze_text db t st) = Inl (Exception ValueError msg))
            \<longleftrightarrow> int (length t) > m) \<and>
         ((\<exists>r. fst (analyze_text db t st) = Inr r) \<longleftrightarrow> int (length t) \<le> m) \<and>
         ((\<exists>msg. fst (summarize_text t max_sentences st) = Inl (Exception ValueError msg))
            \<longleftrightarrow> int (length t) > m) \<and>
         ((\<exists>r. fst (summarize_text t max_sentences st) = Inr r) \<longleftrightarrow> int (length t) \<le> m)"
  using read_max_length_result [OF assms(1)]
  by (simp add: analyze_text_def summarize_text_def io_bind_def io_return_def io_raise_def
      too_long_def Let_def)

theorem text_too_long_iff_witness:
  "(\<exists>msg. fst (analyze_text ascii_db (py ''abcdef'')
              (fresh_process\<lparr>environ := [TEXT_PROCESSOR_MAX_LENGTH \<mapsto> py ''5'']\<rparr>))
          = Inl (Exception ValueError msg)) \<and>
   (\<exists>r. fst (summarize_text (py ''abc'') 3
              (fresh_process\<lparr>environ := [TEXT_PROCESSOR_MAX_LENGTH \<mapsto> py ''5'']\<rparr>)) = Inr r)"
proof -
  let ?st = "fresh_process\<lparr>environ := [TEXT_PROCESSOR_MAX_LENGTH \<mapsto> py ''5'']\<rparr>"
  have five: "py_int (py ''5'') = Some 5"
    by (simp add: py_int_def py_def int_space_def isspace_def isdigit_def digits_val_def)
  have env: "(environ ?st TEXT_PROCESSOR_MAX_LENGTH = None \<and> (5::int) = 10000) \<or>
             (\<exists>v. environ ?st TEXT_PROCESSOR_MAX_LENGTH = Some v \<and> py_int v = Some 5)"
    by (simp add: five)
  have long: "int (length (py ''abcdef'')) > 5" and short: "int (length (py ''abc'')) \<le> 5"
    by (simp_all add: py_def)
  from text_too_long_iff [OF env, of 3 ascii_db "py ''abcdef''"] long
  have a: "\<exists>msg. fst (analyze_text ascii_db (py ''abcdef'') ?st) = Inl (Exception ValueError msg)"
    by simp
  from text_too_long_iff [OF env, of 3 ascii_db "py ''abc''"] short
  have b: "\<exists>r. fst (summarize_text (py ''abc'') 3 ?st) = Inr r"
    by simp
  from a b show ?thesis by blast
qed

text \<open>
  Claim C9 says that \<open>clean_text\<close> is idempotent. As the file stands it is not: on the
  29 characters \<^verbatim>\<open>, ", "'").replace(").replace(\<close> the call of line 22 replaces the
  pattern in the middle by a single quote, which puts the pattern together again;
  cleaning that result once more gives a single quote.
\<close>

theorem clean_text_twice_differs:
  "clean_text (py '', '' @ [34] @ quote_pattern @ [34] @ py '').replace('') = quote_pattern \<and>
   clean_text quote_pattern = [39] \<and>
   clean_text (clean_text (py '', '' @ [34] @ quote_pattern @ [34] @ py '').replace(''))
     \<noteq> clean_text (py '', '' @ [34] @ quote_pattern @ [34] @ py '').replace('')"
  by (simp add: clean_text_def quote_pattern_def py_def py_strip_def isspace_def)

text \<open>
  Claim C10: on a text no longer than the configured maximum that splits, at the runs
  of \<open>.\<close>, \<open>!\<close> and \<open>?\<close>, into at most \<open>max_sentences\<close> non-empty stripped sentences,
  \<open>summarize_text\<close> returns the text unchanged.
\<close>

theorem summarize_text_identity_on_short_input:
  assumes "(environ st TEXT_PROCESSOR_MAX_LENGTH = None \<and> m = 10000) \<or>
           (\<exists>v. environ st TEXT_PROCESSOR_MAX_LENGTH = Some v \<and> py_int v = Some m)"
    and "int (length t) \<le> m"
    and "int (length (filter (\<lambda>s. s \<noteq> []) (map py_strip (re_split_runs sentence_end t))))
           \<le> max_sentences"
  shows "fst (summarize_text t max_sentences st) = Inr t"
  using assms(2,3) read_max_length_result [OF assms(1)]
  by (simp add: summarize_text_def io_bind_def io_return_def)

theorem summarize_text_identity_on_short_input_witness:
  "fst (summarize_text (py ''Hi there. Bye now!'') 3 fresh_process) = Inr (py ''Hi there. Bye now!'')"
  using summarize_text_identity_on_short_input [where st = fresh_process and m = 10000
      and t = "py ''Hi there. Bye now!''" and max_sentences = 3]
  by (simp add: fresh_process_def py_def py_strip_def isspace_def sentence_end_def)

section \<open>Properties of the bundle contract and of the dependency extractor\<close>

text \<open>
  Claim C3: the bundled text processor satisfies the plugin bundle contract. Its
  metadata block holds name, version, description, author, platform and the
  runtime-version constraint as strings, a sequence of dependencies, and a mapping of
  environment variables each entry of which has a \<open>description\<close> and a \<open>required\<close>
  field; its exports block lists the eight tool callables under \<open>tools\<close>.
\<close>

theorem text_processor_satisfies_bundle_contract:
  "bundle_contract module_info module_exports \<and>
   map_of module_exports (py ''tools'') =
     Some [Analyze_text, Summarize_text, Clean_text, Count_words, Extract_keywords,
           Format_as_markdown, Format_as_html, Format_as_list]"
  by (simp add: bundle_contract_def metadata_schema_ok_def has_str_def has_key_def is_str_def
      env_entry_ok_def module_info_def module_exports_def py_def)

lemma requirement_lines_order_free:
  assumes "set (plugins reg') = set (plugins reg)"
  shows "requirement_lines inferred reg' = requirement_lines inferred reg"
  by (rule sorted_distinct_set_unique) (simp_all add: requirement_lines_def assms)

text \<open>
  Claim C7: the lines of \<open>generate_requirements\<close> hold every requirement of the
  registry exactly once, in lexicographic order, one per line, and the text depends on
  the set of plugins only, not on their order; plugins requiring \<open>foo\<close>, \<open>bar\<close> and
  \<open>bar\<close>, \<open>baz\<close> give the lines \<open>bar\<close>, \<open>baz\<close>, \<open>foo\<close>.
\<close>

theorem requirements_deduplicated_sorted_deterministic:
  "distinct (requirement_lines inferred reg) \<and>
   sorted (requirement_lines inferred reg) \<and>
   set (requirement_lines inferred reg)
     = (\<Union>p \<in> set (plugins reg). set (extract_dependencies inferred p)) \<and>
   generate_requirements inferred reg = py_join [10] (requirement_lines inferred reg) \<and>
   (set (plugins reg') = set (plugins reg) \<longrightarrow>
      generate_requirements inferred reg' = generate_requirements inferred reg) \<and>
   requirement_lines inferred
     \<lparr>plugins = [plugin_requiring (py ''A'') [py ''foo'', py ''bar''],
                 plugin_requiring (py ''B'') [py ''bar'', py ''baz'']],
      tools = ([] :: unit Tool list)\<rparr> = [py ''bar'', py ''baz'', py ''foo'']"
proof -
  have ex: "requirement_lines inferred
     \<lparr>plugins = [plugin_requiring (py ''A'') [py ''foo'', py ''bar''],
                 plugin_requiring (py ''B'') [py ''bar'', py ''baz'']],
      tools = ([] :: unit Tool list)\<rparr> = [py ''bar'', py ''baz'', py ''foo'']"
    by (simp add: requirement_lines_def extract_dependencies_def plugin_requiring_def py_def)
  show ?thesis
    using ex requirement_lines_order_free [of reg' reg inferred]
    by (simp add: generate_requirements_def) (simp add: requirement_lines_def)
qed

theorem requirements_deduplicated_sorted_deterministic_witness:
  "generate_requirements (\<lambda>i. [])
     \<lparr>plugins = [plugin_requiring (py ''B'') [py ''bar'', py ''baz''],
                 plugin_requiring (py ''A'') [py ''foo'', py ''bar'']],
      tools = ([] :: unit Tool list)\<rparr>
   = generate_requirements (\<lambda>i. [])
     \<lparr>plugins = [plugin_requiring (py ''A'') [py ''foo'', py ''bar''],
                 plugin_requiring (py ''B'') [py ''bar'', py ''baz'']],
      tools = ([] :: unit Tool list)\<rparr>"
proof -
  have "set (plugins \<lparr>plugins = [plugin_requiring (py ''B'') [py ''bar'', py ''baz''],
                 plugin_requiring (py ''A'') [py ''foo'', py ''bar'']],
      tools = ([] :: unit Tool list)\<rparr>)
    = set (plugins \<lparr>plugins = [plugin_requiring (py ''A'') [py ''foo'', py ''bar''],
                 plugin_requiring (py ''B'') [py ''bar'', py ''baz'']],
      tools = ([] :: unit Tool list)\<rparr>)"
    by auto
  with requirements_deduplicated_sorted_deterministic show ?thesis
    by blast
qed

section \<open>Properties of the plugin loader\<close>

lemma register_tools_plugins:
  "plugins (registry (register_tools tn i fs res)) = plugins (registry res)"
  by (induction fs arbitrary: res) (simp_all add: Let_def)

lemma register_tools_registry_cong:
  "registry res = registry res' \<Longrightarrow>
   registry (register_tools tn i fs res) = registry (register_tools tn i fs res')"
proof (induction fs arbitrary: res res')
  case Nil
  then show ?case by simp
next
  case (Cons f fs)
  let ?qn = "i @ py ''.'' @ tn f"
  let ?entry = "\<lparr>qualified_name = ?qn, plugin_identifier = i, callable = f\<rparr>"
  show ?case
  proof (cases "?qn \<in> qualified_name ` set (tools (registry res))")
    case True
    have "registry (register_tools tn i fs (res\<lparr>failures := failures res @ [(i, Duplicate_tool ?qn)]\<rparr>))
        = registry (register_tools tn i fs (res'\<lparr>failures := failures res' @ [(i, Duplicate_tool ?qn)]\<rparr>))"
      by (rule Cons.IH) (simp add: Cons.prems)
    with True Cons.prems show ?thesis by (simp add: Let_def)
  next
    case False
    have "registry (register_tools tn i fs
             (res\<lparr>registry := (registry res)\<lparr>tools := tools (registry res) @ [?entry]\<rparr>\<rparr>))
        = registry (register_tools tn i fs
             (res'\<lparr>registry := (registry res')\<lparr>tools := tools (registry res') @ [?entry]\<rparr>\<rparr>))"
      by (rule Cons.IH) (simp add: Cons.prems)
    with False Cons.prems show ?thesis by (simp add: Let_def)
  qed
qed

lemma register_tools_failures:
  "set (failures res) \<subseteq> set (failures (register_tools tn i fs res))"
proof (induction fs arbitrary: res)
  case Nil
  then show ?case by simp
next
  case (Cons f fs)
  let ?qn = "i @ py ''.'' @ tn f"
  show ?case
  proof (cases "?qn \<in> qualified_name ` set (tools (registry res))")
    case True
    with Cons.IH [of "res\<lparr>failures := failures res @ [(i, Duplicate_tool ?qn)]\<rparr>"]
    show ?thesis by (auto simp: Let_def)
  next
    case False
    with Cons.IH [of "res\<lparr>registry := (registry res)\<lparr>tools := tools (registry res) @
                [\<lparr>qualified_name = ?qn, plugin_identifier = i, callable = f\<rparr>]\<rparr>\<rparr>"]
    show ?thesis by (auto simp: Let_def)
  qed
qed

lemma register_tools_owner:
  "plugin_identifier ` set (tools (registry (register_tools tn i fs res)))
     \<subseteq> insert i (plugin_identifier ` set (tools (registry res)))"
proof (induction fs arbitrary: res)
  case Nil
  then show ?case by auto
next
  case (Cons f fs)
  let ?qn = "i @ py ''.'' @ tn f"
  show ?case
  proof (cases "?qn \<in> qualified_name ` set (tools (registry res))")
    case True
    with Cons.IH [of "res\<lparr>failures := failures res @ [(i, Duplicate_tool ?qn)]\<rparr>"]
    show ?thesis by (auto simp: Let_def)
  next
    case False
    with Cons.IH [of "res\<lparr>registry := (registry res)\<lparr>tools := tools (registry res) @
                [\<lparr>qualified_name = ?qn, plugin_identifier = i, callable = f\<rparr>]\<rparr>\<rparr>"]
    show ?thesis by (auto simp: Let_def)
  qed
qed

lemma load_candidate_broken:
  "check_candidate b = Inl reason \<Longrightarrow>
   load_candidate tn res b = res\<lparr>failures := failures res @ [(cand_identifier b, reason)]\<rparr>"
  by (simp add: load_candidate_def)

lemma load_candidate_registry_cong:
  assumes "registry res = registry res'"
  shows "registry (load_candidate tn res c) = registry (load_candidate tn res' c)"
proof (cases "check_candidate c")
  case (Inl reason)
  with assms show ?thesis by (simp add: load_candidate_def)
next
  case (Inr v)
  obtain info ts where v: "v = (info, ts)" by (cases v)
  let ?md = "to_metadata (cand_identifier c) info"
  have "registry (register_tools tn (cand_identifier c) ts
           (res\<lparr>registry := (registry res)\<lparr>plugins := plugins (registry res) @ [?md]\<rparr>\<rparr>))
      = registry (register_tools tn (cand_identifier c) ts
           (res'\<lparr>registry := (registry res')\<lparr>plugins := plugins (registry res') @ [?md]\<rparr>\<rparr>))"
    by (rule register_tools_registry_cong) (simp add: assms)
  with assms show ?thesis by (simp add: load_candidate_def Inr v)
qed

lemma load_candidate_failures:
  "set (failures res) \<subseteq> set (failures (load_candidate tn res c))"
proof (cases "check_candidate c")
  case (Inl reason)
  then show ?thesis by (simp add: load_candidate_def subset_insertI2)
next
  case (Inr v)
  obtain info ts where v: "v = (info, ts)" by (cases v)
  from register_tools_failures
         [of "res\<lparr>registry := (registry res)\<lparr>plugins := plugins (registry res) @
                    [to_metadata (cand_identifier c) info]\<rparr>\<rparr>" tn "cand_identifier c" ts]
  show ?thesis by (simp add: load_candidate_def Inr v subset_insertI2)
qed

lemma load_candidate_plugins:
  "plugins (registry (load_candidate tn res c)) =
     (case check_candidate c of
        Inl reason \<Rightarrow> plugins (registry res)
      | Inr (info, ts) \<Rightarrow>
          if cand_identifier c \<in> plugin_id ` set (plugins (registry res))
          then plugins (registry res)
          else plugins (registry res) @ [to_metadata (cand_identifier c) info])"
proof (cases "check_candidate c")
  case (Inl reason)
  then show ?thesis by (simp add: load_candidate_def)
next
  case (Inr v)
  obtain info ts where v: "v = (info, ts)" by (cases v)
  show ?thesis
    by (simp add: load_candidate_def Inr v register_tools_plugins)
qed

lemma load_candidate_owner:
  "plugin_identifier ` set (tools (registry (load_candidate tn res c)))
     \<subseteq> insert (cand_identifier c) (plugin_identifier ` set (tools (registry res)))"
proof (cases "check_candidate c")
  case (Inl reason)
  then show ?thesis by (simp add: load_candidate_def subset_insertI)
next
  case (Inr v)
  obtain info ts where v: "v = (info, ts)" by (cases v)
  from register_tools_owner [of tn "cand_identifier c" ts
        "res\<lparr>registry := (registry res)\<lparr>plugins := plugins (registry res) @
                    [to_metadata (cand_identifier c) info]\<rparr>\<rparr>"]
  show ?thesis by (simp add: load_candidate_def Inr v subset_insertI)
qed

lemma load_candidate_ids:
  "plugin_id ` set (plugins (registry (load_candidate tn res c)))
     \<subseteq> insert (cand_identifier c) (plugin_id ` set (plugins (registry res)))"
proof (cases "check_candidate c")
  case (Inl reason)
  then show ?thesis by (simp add: load_candidate_plugins subset_insertI)
next
  case (Inr v)
  obtain info ts where v: "v = (info, ts)" by (cases v)
  show ?thesis
    by (simp add: load_candidate_plugins Inr v to_metadata_def subset_insertI)
qed

lemma to_metadata_id: "plugin_id (to_metadata i info) = i"
  by (simp add: to_metadata_def)

lemma loop_registry_cong:
  "registry res = registry res' \<Longrightarrow>
   registry (foldl (load_candidate tn) res cs) = registry (foldl (load_candidate tn) res' cs)"
proof (induction cs arbitrary: res res')
  case Nil
  then show ?case by simp
next
  case (Cons c cs)
  have "registry (foldl (load_candidate tn) (load_candidate tn res c) cs)
      = registry (foldl (load_candidate tn) (load_candidate tn res' c) cs)"
    by (rule Cons.IH) (rule load_candidate_registry_cong [OF Cons.prems])
  then show ?case by simp
qed

lemma loop_failures:
  "set (failures res) \<subseteq> set (failures (foldl (load_candidate tn) res cs))"
proof (induction cs arbitrary: res)
  case Nil
  then show ?case by simp
next
  case (Cons c cs)
  from load_candidate_failures [of res tn c] Cons.IH [of "load_candidate tn res c"]
  show ?case by auto
qed

lemma load_candidate_plugins_kept:
  "set (plugins (registry res)) \<subseteq> set (plugins (registry (load_candidate tn res c)))"
proof (cases "check_candidate c")
  case (Inl reason)
  then show ?thesis by (simp add: load_candidate_plugins)
next
  case (Inr v)
  obtain info ts where v: "v = (info, ts)" by (cases v)
  show ?thesis
    by (simp add: load_candidate_plugins Inr v subset_insertI)
qed

lemma loop_plugins_kept:
  "set (plugins (registry res)) \<subseteq> set (plugins (registry (foldl (load_candidate tn) res cs)))"
proof (induction cs arbitrary: res)
  case Nil
  then show ?case by simp
next
  case (Cons c cs)
  from load_candidate_plugins_kept [of res tn c] Cons.IH [of "load_candidate tn res c"]
  show ?case by simp
qed

lemma loop_plugin_ids:
  "plugin_id ` set (plugins (registry (foldl (load_candidate tn) res cs)))
     \<subseteq> plugin_id ` set (plugins (registry res)) \<union> cand_identifier ` set cs"
proof (induction cs arbitrary: res)
  case Nil
  then show ?case by simp
next
  case (Cons c cs)
  from load_candidate_ids [of tn res c] Cons.IH [of "load_candidate tn res c"]
  show ?case
    unfolding foldl_Cons list.set image_insert by blast
qed

lemma loop_tool_owners:
  "plugin_identifier ` set (tools (registry (foldl (load_candidate tn) res cs)))
     \<subseteq> plugin_identifier ` set (tools (registry res)) \<union> cand_identifier ` set cs"
proof (induction cs arbitrary: res)
  case Nil
  then show ?case by simp
next
  case (Cons c cs)
  from load_candidate_owner [of tn res c] Cons.IH [of "load_candidate tn res c"]
  show ?case
    unfolding foldl_Cons list.set image_insert by blast
qed

lemma disjoint_member: "x \<in> C \<Longrightarrow> C \<inter> B = {} \<Longrightarrow> x \<notin> B"
  by blast

lemma disjoint_subset: "C' \<subseteq> C \<Longrightarrow> C \<inter> B = {} \<Longrightarrow> C' \<inter> B = {}"
  by blast

lemma disjoint_after_insert:
  "A \<subseteq> insert x B \<Longrightarrow> x \<notin> C \<Longrightarrow> C \<inter> B = {} \<Longrightarrow> C \<inter> A = {}"
  by blast

lemma loop_valid_registered:
  "distinct (map cand_identifier cs) \<Longrightarrow>
   cand_identifier ` set cs \<inter> plugin_id ` set (plugins (registry res)) = {} \<Longrightarrow>
   c \<in> set cs \<Longrightarrow> check_candidate c = Inr (info, ts) \<Longrightarrow>
   to_metadata (cand_identifier c) info
     \<in> set (plugins (registry (foldl (load_candidate tn) res cs)))"
proof (induction cs arbitrary: res)
  case Nil
  then show ?case by simp
next
  case (Cons c0 cs)
  let ?res = "load_candidate tn res c0"
  from Cons.prems(1) have fresh: "cand_identifier c0 \<notin> cand_identifier ` set cs"
    and dist: "distinct (map cand_identifier cs)"
    by simp_all
  have mem: "cand_identifier c0 \<in> cand_identifier ` set (c0 # cs)"
    by simp
  have sub: "cand_identifier ` set cs \<subseteq> cand_identifier ` set (c0 # cs)"
    by (simp add: subset_insertI)
  note new = disjoint_member [OF mem Cons.prems(2)]
  note apart = disjoint_subset [OF sub Cons.prems(2)]
  note apart' = disjoint_after_insert [OF load_candidate_ids [of tn res c0] fresh apart]
  show ?case
  proof (cases "c = c0")
    case True
    with Cons.prems(4) have valid: "check_candidate c0 = Inr (info, ts)"
      by simp
    have "plugins (registry ?res) = plugins (registry res) @ [to_metadata (cand_identifier c0) info]"
      by (simp add: load_candidate_plugins valid new)
    then have "to_metadata (cand_identifier c0) info \<in> set (plugins (registry ?res))"
      by simp
    with loop_plugins_kept [of ?res tn cs]
    have "to_metadata (cand_identifier c0) info
            \<in> set (plugins (registry (foldl (load_candidate tn) ?res cs)))"
      by (rule subsetD)
    with True show ?thesis by simp
  next
    case False
    with Cons.prems(3) have in_cs: "c \<in> set cs" by simp
    from Cons.IH [OF dist apart' in_cs Cons.prems(4)] show ?thesis by simp
  qed
qed

text \<open>
  Claim C5, fault isolation of the loader: a candidate bundle whose import or whose
  validation fails is recorded as a load failure with its reason, and the registry is
  the registry of the run without that bundle. When the candidates of the root have
  distinct identifiers, the registry holds no plugin and no tool of the broken bundle,
  and every other bundle that passes the import and the validation is registered.
\<close>

theorem loader_fault_isolation:
  assumes "check_candidate b = Inl reason"
  shows "registry (plugin_loader tn (xs @ b # ys)) = registry (plugin_loader tn (xs @ ys)) \<and>
         (cand_identifier b, reason) \<in> set (failures (plugin_loader tn (xs @ b # ys))) \<and>
         (distinct (map cand_identifier (xs @ b # ys)) \<longrightarrow>
            cand_identifier b
              \<notin> plugin_id ` set (plugins (registry (plugin_loader tn (xs @ b # ys)))) \<and>
            cand_identifier b
              \<notin> plugin_identifier ` set (tools (registry (plugin_loader tn (xs @ b # ys)))) \<and>
            (\<forall>c \<in> set (xs @ ys). \<forall>info ts. check_candidate c = Inr (info, ts) \<longrightarrow>
               to_metadata (cand_identifier c) info
                 \<in> set (plugins (registry (plugin_loader tn (xs @ b # ys))))))"
proof -
  let ?init = "\<lparr>registry = \<lparr>plugins = [], tools = []\<rparr>, failures = []\<rparr> :: 'a load_result"
  let ?mid = "foldl (load_candidate tn) ?init xs"
  have "registry (foldl (load_candidate tn) (load_candidate tn ?mid b) ys)
      = registry (foldl (load_candidate tn) ?mid ys)"
    by (rule loop_registry_cong) (simp add: load_candidate_broken [OF assms])
  then have same:
    "registry (plugin_loader tn (xs @ b # ys)) = registry (plugin_loader tn (xs @ ys))"
    unfolding plugin_loader_def by simp
  have "(cand_identifier b, reason) \<in> set (failures (load_candidate tn ?mid b))"
    by (simp add: load_candidate_broken [OF assms])
  with loop_failures [of "load_candidate tn ?mid b" tn ys]
  have recorded: "(cand_identifier b, reason) \<in> set (failures (plugin_loader tn (xs @ b # ys)))"
    by (auto simp: plugin_loader_def)
  have rest: "cand_identifier b \<notin> plugin_id ` set (plugins (registry (plugin_loader tn (xs @ ys))))
      \<and> cand_identifier b
           \<notin> plugin_identifier ` set (tools (registry (plugin_loader tn (xs @ ys))))
      \<and> (\<forall>c \<in> set (xs @ ys). \<forall>info ts. check_candidate c = Inr (info, ts) \<longrightarrow>
             to_metadata (cand_identifier c) info
               \<in> set (plugins (registry (plugin_loader tn (xs @ ys)))))"
    if d: "distinct (map cand_identifier (xs @ b # ys))"
  proof -
    from d have nb: "cand_identifier b \<notin> cand_identifier ` set (xs @ ys)"
      and d': "distinct (map cand_identifier (xs @ ys))"
      by auto
    from nb loop_plugin_ids [of tn ?init "xs @ ys"]
    have "cand_identifier b \<notin> plugin_id ` set (plugins (registry (plugin_loader tn (xs @ ys))))"
      by (auto simp: plugin_loader_def)
    moreover from nb loop_tool_owners [of tn ?init "xs @ ys"]
    have "cand_identifier b
            \<notin> plugin_identifier ` set (tools (registry (plugin_loader tn (xs @ ys))))"
      by (auto simp: plugin_loader_def)
    moreover have "to_metadata (cand_identifier c) info
               \<in> set (plugins (registry (plugin_loader tn (xs @ ys))))"
      if "c \<in> set (xs @ ys)" and "check_candidate c = Inr (info, ts)" for c info ts
      unfolding plugin_loader_def
      using d' _ that by (rule loop_valid_registered) simp
    ultimately show ?thesis by blast
  qed
  from same recorded rest show ?thesis by simp
qed

theorem loader_fault_isolation_witness:
  "registry (plugin_loader tool_name [nameless_candidate, text_processor_candidate])
     = registry (plugin_loader tool_name [text_processor_candidate]) \<and>
   (py ''nameless'', Invalid_metadata)
     \<in> set (failures (plugin_loader tool_name [nameless_candidate, text_processor_candidate])) \<and>
   to_metadata (py ''text_processor'') module_info
     \<in> set (plugins (registry (plugin_loader tool_name
                [nameless_candidate, text_processor_candidate])))"
proof -
  have broken: "check_candidate nameless_candidate = Inl Invalid_metadata"
    by (simp add: check_candidate_def nameless_candidate_def bundle_contract_def
        metadata_schema_ok_def has_str_def py_def)
  have valid: "check_candidate text_processor_candidate
      = Inr (module_info, [Analyze_text, Summarize_text, Clean_text, Count_words,
               Extract_keywords, Format_as_markdown, Format_as_html, Format_as_list])"
    by (simp add: check_candidate_def text_processor_candidate_def bundle_contract_def
        metadata_schema_ok_def has_str_def has_key_def is_str_def env_entry_ok_def
        module_info_def module_exports_def py_def)
  have ids: "distinct (map cand_identifier ([] @ nameless_candidate # [text_processor_candidate]))"
    by (simp add: nameless_candidate_def text_processor_candidate_def py_def)
  have names: "cand_identifier nameless_candidate = py ''nameless''"
    "cand_identifier text_processor_candidate = py ''text_processor''"
    by (simp_all add: nameless_candidate_def text_processor_candidate_def)
  note isolation =
    loader_fault_isolation [OF broken, of tool_name "[]" "[text_processor_candidate]"]
  from isolation
  have same: "registry (plugin_loader tool_name ([] @ nameless_candidate # [text_processor_candidate]))
      = registry (plugin_loader tool_name ([] @ [text_processor_candidate]))"
    by (rule conjunct1)
  from isolation
  have recorded: "(cand_identifier nameless_candidate, Invalid_metadata)
      \<in> set (failures (plugin_loader tool_name
                ([] @ nameless_candidate # [text_processor_candidate])))"
    by (rule conjunct2 [THEN conjunct1])
  from isolation ids
  have "\<forall>c \<in> set ([] @ [text_processor_candidate]). \<forall>info ts.
          check_candidate c = Inr (info, ts) \<longrightarrow>
          to_metadata (cand_identifier c) info
            \<in> set (plugins (registry (plugin_loader tool_name
                  ([] @ nameless_candidate # [text_processor_candidate]))))"
    by blast
  with valid
  have loaded: "to_metadata (cand_identifier text_processor_candidate) module_info
      \<in> set (plugins (registry (plugin_loader tool_name
            ([] @ nameless_candidate # [text_processor_candidate]))))"
    by simp
  have 1: "registry (plugin_loader tool_name [nameless_candidate, text_processor_candidate])
     = registry (plugin_loader tool_name [text_processor_candidate])"
    using same by simp
  have 2: "(py ''nameless'', Invalid_metadata)
     \<in> set (failures (plugin_loader tool_name [nameless_candidate, text_processor_candidate]))"
    using recorded by (simp add: names)
  have 3: "to_metadata (py ''text_processor'') module_info
     \<in> set (plugins (registry (plugin_loader tool_name
                [nameless_candidate, text_processor_candidate])))"
    using loaded by (simp add: names)
  show ?thesis
    by (intro conjI 1 2 3)
qed

section \<open>Properties of the environment reconciliation engine\<close>

lemma lookup_add_declaration:
  "lookup_var (add_declaration ms d) n =
     (if var_name d = n
      then Some (case lookup_var ms n of None \<Rightarrow> d | Some m \<Rightarrow> merge_spec m d)
      else lookup_var ms n)"
  by (induction ms) (auto simp: lookup_var_def merge_spec_def)

lemma lookup_fold_declarations:
  "lookup_var (foldl add_declaration acc ds) n =
     foldl (\<lambda>found d. Some (case found of None \<Rightarrow> d | Some m \<Rightarrow> merge_spec m d))
       (lookup_var acc n) (filter (\<lambda>d. var_name d = n) ds)"
  by (induction ds arbitrary: acc) (simp_all add: lookup_add_declaration)

lemma fold_from_Some:
  "foldl (\<lambda>found d. Some (case found of None \<Rightarrow> d | Some m \<Rightarrow> merge_spec m d)) (Some m) ds
     = Some (foldl merge_spec m ds)"
  by (induction ds arbitrary: m) simp_all

lemma merged_name: "var_name (foldl merge_spec m ds) = var_name m"
  by (induction ds arbitrary: m) (simp_all add: merge_spec_def)

lemma merged_required:
  "var_required (foldl merge_spec m ds) \<longleftrightarrow> var_required m \<or> (\<exists>d \<in> set ds. var_required d)"
  by (induction ds arbitrary: m) (auto simp: merge_spec_def)

lemma merged_description_value:
  "var_description (foldl merge_spec m ds) =
     (if var_description m \<noteq> [] then var_description m
      else (case find (\<lambda>x. var_description x \<noteq> []) ds of
              None \<Rightarrow> []
            | Some x \<Rightarrow> var_description x))"
  by (induction ds arbitrary: m) (simp_all add: merge_spec_def)

lemma merged_description:
  "find (\<lambda>x. var_description x \<noteq> []) (m # ds) = Some d \<Longrightarrow>
   var_description (foldl merge_spec m ds) = var_description d"
  by (auto simp: merged_description_value split: if_splits)

lemma merged_default_kept:
  "nonempty_default (var_default m) \<Longrightarrow> var_default (foldl merge_spec m ds) = var_default m"
  by (induction ds arbitrary: m) (simp_all add: merge_spec_def)

lemma merged_default_found:
  "find (\<lambda>x. nonempty_default (var_default x)) ds = Some d \<Longrightarrow>
   \<not> nonempty_default (var_default m) \<Longrightarrow>
   var_default (foldl merge_spec m ds) = var_default d"
proof (induction ds arbitrary: m)
  case Nil
  then show ?case by simp
next
  case (Cons x ds)
  have step: "var_default (merge_spec m x) = var_default x"
    using Cons.prems(2) by (simp add: merge_spec_def)
  show ?case
  proof (cases "nonempty_default (var_default x)")
    case True
    with Cons.prems(1) have "d = x" by simp
    with True step show ?thesis by (simp add: merged_default_kept)
  next
    case False
    with Cons.prems(1) have "find (\<lambda>x. nonempty_default (var_default x)) ds = Some d"
      by simp
    with False step Cons.IH [of "merge_spec m x"] show ?thesis by simp
  qed
qed

lemma merged_default:
  "find (\<lambda>x. nonempty_default (var_default x)) (m # ds) = Some d \<Longrightarrow>
   var_default (foldl merge_spec m ds) = var_default d"
  by (auto simp: merged_default_kept merged_default_found split: if_splits)

lemma lookup_merged:
  assumes "filter (\<lambda>d. var_name d = n) (declarations reg) = d0 # ds"
  shows "lookup_var (get_all_env_vars_spec reg) n = Some (foldl merge_spec d0 ds)"
proof -
  have "lookup_var [] n = None"
    by (simp add: lookup_var_def)
  then show ?thesis
    unfolding get_all_env_vars_spec_def lookup_fold_declarations
    by (simp add: assms fold_from_Some)
qed

text \<open>
  Claim C6, the merge rule: for a name \<open>n\<close> that the plugins of the registry declare,
  with \<open>ds\<close> the declarations of \<open>n\<close> in the order of the registry, \<open>get_all_env_vars\<close>
  maps \<open>n\<close> to a specification whose \<open>required\<close> flag is the disjunction of the flags of
  \<open>ds\<close>, whose description is that of the first declaration with a non-empty
  description and whose default is that of the first declaration with a non-empty
  default; the \<open>required\<close> flag is the same for every registry with the same plugins,
  in whatever order.
\<close>

theorem env_var_merge_rule:
  assumes "ds = filter (\<lambda>d. var_name d = n) (declarations reg)" and "ds \<noteq> []"
  shows "\<exists>m. lookup_var (get_all_env_vars_spec reg) n = Some m \<and> var_name m = n \<and>
           (var_required m \<longleftrightarrow> (\<exists>d \<in> set ds. var_required d)) \<and>
           (\<forall>d. find (\<lambda>x. var_description x \<noteq> []) ds = Some d
                \<longrightarrow> var_description m = var_description d) \<and>
           (\<forall>d. find (\<lambda>x. nonempty_default (var_default x)) ds = Some d
                \<longrightarrow> var_default m = var_default d) \<and>
           (\<forall>reg'. set (plugins reg') = set (plugins reg) \<longrightarrow>
                map_option var_required (lookup_var (get_all_env_vars_spec reg') n)
                  = Some (var_required m))"
proof -
  from assms(2) obtain d0 rest where ds: "ds = d0 # rest"
    by (cases ds) auto
  let ?m = "foldl merge_spec d0 rest"
  have look: "lookup_var (get_all_env_vars_spec reg) n = Some ?m"
    using assms(1) ds by (simp add: lookup_merged)
  have "d0 \<in> set ds" using ds by simp
  then have name0: "var_name d0 = n" using assms(1) by simp
  have req: "var_required ?m \<longleftrightarrow> (\<exists>d \<in> set ds. var_required d)"
    by (simp add: merged_required ds)
  have other: "map_option var_required (lookup_var (get_all_env_vars_spec reg') n)
                  = Some (var_required ?m)"
    if same: "set (plugins reg') = set (plugins reg)" for reg' :: "'b PluginRegistry"
  proof -
    define ds' where "ds' = filter (\<lambda>d. var_name d = n) (declarations reg')"
    from same have sets: "set ds' = set ds"
      by (simp add: assms(1) ds'_def declarations_def)
    with assms(2) obtain d1 rest' where ds': "ds' = d1 # rest'"
      by (cases ds') auto
    then have "lookup_var (get_all_env_vars_spec reg') n = Some (foldl merge_spec d1 rest')"
      unfolding ds'_def by (rule lookup_merged)
    moreover have "var_required (foldl merge_spec d1 rest') \<longleftrightarrow> (\<exists>d \<in> set ds'. var_required d)"
      by (simp add: merged_required ds')
    ultimately show ?thesis by (simp add: sets req)
  qed
  have nm: "var_name ?m = n"
    by (simp add: merged_name name0)
  have desc: "\<forall>d. find (\<lambda>x. var_description x \<noteq> []) ds = Some d
                \<longrightarrow> var_description ?m = var_description d"
    unfolding ds by (blast intro: merged_description)
  have dflt: "\<forall>d. find (\<lambda>x. nonempty_default (var_default x)) ds = Some d
                \<longrightarrow> var_default ?m = var_default d"
    unfolding ds by (blast intro: merged_default)
  from look nm req desc dflt other show ?thesis
    by blast
qed

theorem env_var_merge_rule_witness:
  "map_option var_required
     (lookup_var
        (get_all_env_vars_spec
           \<lparr>plugins =
              [plugin_declaring (py ''a'')
                 [\<lparr>var_name = py ''API_KEY'', var_description = [], var_default = None,
                   var_required = False\<rparr>],
               plugin_declaring (py ''b'')
                 [\<lparr>var_name = py ''API_KEY'', var_description = py ''key'',
                   var_default = Some (py ''x''), var_required = True\<rparr>]],
            tools = ([] :: unit Tool list)\<rparr>)
        (py ''API_KEY'')) = Some True"
proof -
  let ?d1 = "\<lparr>var_name = py ''API_KEY'', var_description = [], var_default = None,
                   var_required = False\<rparr>"
  let ?d2 = "\<lparr>var_name = py ''API_KEY'', var_description = py ''key'',
                   var_default = Some (py ''x''), var_required = True\<rparr>"
  let ?reg = "\<lparr>plugins = [plugin_declaring (py ''a'') [?d1], plugin_declaring (py ''b'') [?d2]],
            tools = ([] :: unit Tool list)\<rparr>"
  have ds: "[?d1, ?d2] = filter (\<lambda>d. var_name d = py ''API_KEY'') (declarations ?reg)"
    by (simp add: declarations_def plugin_declaring_def)
  from env_var_merge_rule [OF ds] show ?thesis
    by auto
qed

end
